theory Spec2Isabelle
  imports Complex_Main
begin

unbundle bit_operations_syntax

section \<open>Errors and array primitives\<close>

text \<open>
  The pipeline is Python over numpy arrays. Arrays are lists, Python integers are
  \<open>int\<close>, floating point numbers are modelled as finite reals (no NaN, no rounding),
  and every exception the modelled code can raise is a value of \<open>error\<close>.
\<close>

datatype error = IndexError | ValueError | ZeroDivisionError | NonFinite

definition and_then :: "error + 'a \<Rightarrow> ('a \<Rightarrow> error + 'b) \<Rightarrow> error + 'b" where
  "and_then r f = (case r of Inl e \<Rightarrow> Inl e | Inr v \<Rightarrow> f v)"

text \<open>\<open>np.diff\<close>: consecutive differences; empty for fewer than two samples.\<close>

fun diff :: "real list \<Rightarrow> real list" where
  "diff (a # b # xs) = (b - a) # diff (b # xs)"
| "diff xs = []"

text \<open>
  Elementwise binary operation of numpy on one-dimensional arrays: equal lengths
  combine pointwise, a length-one operand is broadcast, anything else raises ValueError.
\<close>

definition broadcast2 :: "('a \<Rightarrow> 'b \<Rightarrow> 'c) \<Rightarrow> 'a list \<Rightarrow> 'b list \<Rightarrow> error + 'c list" where
  "broadcast2 f xs ys =
     (if length xs = length ys then Inr (map2 f xs ys)
      else if length xs = 1 then Inr (map (f (hd xs)) ys)
      else if length ys = 1 then Inr (map (\<lambda>a. f a (hd ys)) xs)
      else Inl ValueError)"

text \<open>\<open>a[mask]\<close> with a boolean mask: the mask must have the array's length.\<close>

definition bool_index :: "'a list \<Rightarrow> bool list \<Rightarrow> error + 'a list" where
  "bool_index xs msk =
     (if length msk = length xs then Inr (map fst (filter snd (zip xs msk)))
      else Inl IndexError)"

section \<open>utils/physics.py and preprocessing/features.py\<close>

text \<open>
  \<open>calculate_velocity\<close>: the time step is the scalar \<open>1.0 / fps\<close> (Python float
  division, which raises on zero) unless timestamps are given, in which case it is
  the array of their differences with non-positive entries replaced by \<open>1e-6\<close>.
\<close>

definition calculate_velocity ::
  "real list \<Rightarrow> real list \<Rightarrow> real \<Rightarrow> string \<Rightarrow> real list option \<Rightarrow> error + real list" where
  "calculate_velocity x y fps unit timestamps =
     (let dx = diff x; dy = diff y in
      and_then
        (case timestamps of
           Some ts \<Rightarrow> Inr (Inr (map (\<lambda>d. if d \<le> 0 then 1 / 10 ^ 6 else d) (diff ts)))
         | None \<Rightarrow> if fps = 0 then Inl ZeroDivisionError else Inr (Inl (1 / fps)))
        (\<lambda>dt. and_then (broadcast2 (\<lambda>a b. sqrt (a\<^sup>2 + b\<^sup>2)) dx dy)
          (\<lambda>dist. and_then
             (case dt of
                Inl s \<Rightarrow> Inr (map (\<lambda>d. d / s) dist)
              | Inr arr \<Rightarrow> broadcast2 (\<lambda>d t. d / t) dist arr)
             (\<lambda>velocity.
                Inr (if unit = ''km/h'' then map (\<lambda>v. v * 36 / 10) velocity else velocity)))))"

record distance_metrics =
  total_distance :: real
  sprint_distance :: real
  hsr_distance :: real
  max_speed :: real
  avg_speed :: real

definition MAX_STEP_DISTANCE :: real where
  "MAX_STEP_DISTANCE = 5"

definition calculate_distance_metrics ::
  "real list \<Rightarrow> real list \<Rightarrow> real \<Rightarrow> error + distance_metrics" where
  "calculate_distance_metrics x y fps =
     and_then (calculate_velocity x y fps ''km/h'' None) (\<lambda>velocity_kmh.
     let dx = diff x; dy = diff y in
     and_then (broadcast2 (\<lambda>a b. sqrt (a\<^sup>2 + b\<^sup>2)) dx dy) (\<lambda>segment_distances.
     let valid_mask = map (\<lambda>d. d \<le> MAX_STEP_DISTANCE) segment_distances;
         filtered_distances = map2 (\<lambda>d v. if \<not> v then 0 else d) segment_distances valid_mask;
         total_dist = sum_list filtered_distances in
     and_then (broadcast2 (\<lambda>a b. a \<and> b) (map (\<lambda>v. v > 25) velocity_kmh) valid_mask) (\<lambda>sprint_mask.
     and_then (broadcast2 (\<lambda>a b. a \<and> b) (map (\<lambda>v. v > 20) velocity_kmh) valid_mask) (\<lambda>hsr_mask.
     and_then (bool_index filtered_distances sprint_mask) (\<lambda>sprint_steps.
     and_then (bool_index filtered_distances hsr_mask) (\<lambda>hsr_steps.
     let valid_velocities = filter (\<lambda>v. v \<le> 38) velocity_kmh in
     Inr \<lparr> total_distance = total_dist,
           sprint_distance = sum_list sprint_steps,
           hsr_distance = sum_list hsr_steps,
           max_speed = (if length valid_velocities > 0 then Max (set valid_velocities) else 0),
           avg_speed = (if length valid_velocities > 0
                        then sum_list valid_velocities / real (length valid_velocities)
                        else 0) \<rparr>))))))"

text \<open>The displacement of step \<open>i\<close> of a track, as the specification writes it.\<close>

definition step_displacement :: "real list \<Rightarrow> real list \<Rightarrow> nat \<Rightarrow> real" where
  "step_displacement x y i = sqrt ((x ! Suc i - x ! i)\<^sup>2 + (y ! Suc i - y ! i)\<^sup>2)"

section \<open>preprocessing/filters.py: the gap-aware smoother\<close>

text \<open>
  The smoother itself does no arithmetic on the samples: it cuts the series and hands
  each piece to library routines (\<open>np.isnan\<close>, \<open>pandas.Series.interpolate\<close>,
  \<open>scipy.signal.savgol_filter\<close>, \<open>np.empty_like\<close>). These are parameters of the
  model, collected in a record; \<open>savgol\<close> returns \<open>None\<close> where scipy raises, and
  \<open>empty_like\<close> returns an array of the same shape whose contents are arbitrary.
\<close>

record 'a numlib =
  isnan :: "'a \<Rightarrow> bool"
  interpolate :: "'a list \<Rightarrow> 'a list"
  savgol :: "'a list \<Rightarrow> int \<Rightarrow> int \<Rightarrow> 'a list option"
  empty_like :: "'a list \<Rightarrow> 'a list"

text \<open>What is known of every such library: its array routines keep the length.\<close>

definition numlib_ok :: "'a numlib \<Rightarrow> bool" where
  "numlib_ok lib \<longleftrightarrow>
     (\<forall>d. length (interpolate lib d) = length d) \<and>
     (\<forall>d w p r. savgol lib d w p = Some r \<longrightarrow> length r = length d) \<and>
     (\<forall>d. length (empty_like lib d) = length d)"

text \<open>\<open>xs[s:e]\<close> for non-negative \<open>s\<close>, \<open>e\<close>: clipped to the array, empty when \<open>e \<le> s\<close>.\<close>

definition slice :: "'a list \<Rightarrow> nat \<Rightarrow> nat \<Rightarrow> 'a list" where
  "slice xs s e = take (e - s) (drop s xs)"

text \<open>
  \<open>xs[s:e] = ys\<close> on a numpy array: \<open>ys\<close> must have the length of the target slice,
  or length one (broadcast); otherwise ValueError.
\<close>

definition slice_assign :: "'a list \<Rightarrow> nat \<Rightarrow> nat \<Rightarrow> 'a list \<Rightarrow> error + 'a list" where
  "slice_assign xs s e ys =
     (let n = length (slice xs s e) in
      if length ys = n then Inr (take s xs @ ys @ drop (s + n) xs)
      else if length ys = 1 then Inr (take s xs @ replicate n (hd ys) @ drop (s + n) xs)
      else Inl ValueError)"

text \<open>\<open>_safe_savgol\<close>: interpolate NaNs, force an odd window, fall back to the data.\<close>

definition safe_savgol :: "'a numlib \<Rightarrow> 'a list \<Rightarrow> int \<Rightarrow> int \<Rightarrow> 'a list" where
  "safe_savgol lib data0 window0 order =
     (let data = (if list_ex (isnan lib) data0 then interpolate lib data0 else data0);
          window = (if window0 mod 2 = 0 then window0 + 1 else window0)
      in case savgol lib data window order of Some r \<Rightarrow> r | None \<Rightarrow> data)"

text \<open>\<open>np.diff(ts, prepend=ts[0])\<close>; reading \<open>ts[0]\<close> of an empty array raises.\<close>

definition diff_prepend_first :: "real list \<Rightarrow> error + real list" where
  "diff_prepend_first ts = (case ts of [] \<Rightarrow> Inl IndexError | t0 # _ \<Rightarrow> Inr (diff (t0 # ts)))"

text \<open>\<open>np.where(dt > g)[0]\<close>: the indices whose entry exceeds \<open>g\<close>, ascending.\<close>

definition where_gt :: "real list \<Rightarrow> real \<Rightarrow> nat list" where
  "where_gt dt g = filter (\<lambda>i. dt ! i > g) [0..<length dt]"

text \<open>The value the loop body assigns to \<open>smoothed[start_idx:end_idx]\<close>.\<close>

definition smooth_segment :: "'a numlib \<Rightarrow> 'a list \<Rightarrow> int \<Rightarrow> int \<Rightarrow> 'a list" where
  "smooth_segment lib segment window_size poly_order =
     (let n = int (length segment) in
      if n > window_size then safe_savgol lib segment window_size poly_order
      else if n > poly_order + 2 then
        (let w0 = n OR 1;
             w = (if w0 = n + 1 then w0 - 2 else w0)
         in if w > poly_order then safe_savgol lib segment w poly_order else segment)
      else segment)"

text \<open>The loop \<open>for end_idx in boundaries\<close>, with its state \<open>start_idx\<close>, \<open>smoothed\<close>.\<close>

fun smooth_loop ::
  "'a numlib \<Rightarrow> 'a list \<Rightarrow> int \<Rightarrow> int \<Rightarrow> nat list \<Rightarrow> nat \<Rightarrow> 'a list \<Rightarrow> error + 'a list" where
  "smooth_loop lib vals window_size poly_order [] start_idx smoothed = Inr smoothed"
| "smooth_loop lib vals window_size poly_order (end_idx # boundaries) start_idx smoothed =
     and_then
       (slice_assign smoothed start_idx end_idx
          (smooth_segment lib (slice vals start_idx end_idx) window_size poly_order))
       (\<lambda>smoothed'. smooth_loop lib vals window_size poly_order boundaries end_idx smoothed')"

definition apply_gap_aware_smoothing ::
  "'a numlib \<Rightarrow> 'a list \<Rightarrow> real list \<Rightarrow> real \<Rightarrow> int \<Rightarrow> int \<Rightarrow> error + 'a list" where
  "apply_gap_aware_smoothing lib series timestamps max_gap_seconds window_size poly_order =
     (let vals = series; ts = timestamps in
      if int (length vals) < window_size then Inr vals
      else and_then (diff_prepend_first ts) (\<lambda>dt.
        let split_indices = where_gt dt max_gap_seconds in
        if length split_indices = 0 then Inr (safe_savgol lib vals window_size poly_order)
        else smooth_loop lib vals window_size poly_order
               (split_indices @ [length vals]) 0 (empty_like lib vals)))"

definition SMOOTHING_WINDOW_SIZE :: int where
  "SMOOTHING_WINDOW_SIZE = 7"

definition SMOOTHING_POLY_ORDER :: int where
  "SMOOTHING_POLY_ORDER = 2"

subsection \<open>The specification's reading of the smoother\<close>

text \<open>
  The positions of the gaps: the indices whose sample is more than \<open>g\<close> seconds after
  its predecessor. The segments they cut a series into. The largest odd number up to
  \<open>n\<close>, and the tiered choice of window the specification describes for one segment.
\<close>

definition gap_positions :: "real list \<Rightarrow> real \<Rightarrow> nat list" where
  "gap_positions ts g = filter (\<lambda>i. ts ! i - ts ! (i - 1) > g) [1..<length ts]"

fun segments_between :: "nat list \<Rightarrow> nat \<Rightarrow> 'a list \<Rightarrow> 'a list list" where
  "segments_between [] s xs = []"
| "segments_between (e # bs) s xs = slice xs s e # segments_between bs e xs"






subsection \<open>The library over the reals\<close>

text \<open>
  \<open>scipy.signal.savgol_filter(data, window, order)\<close> in its default mode \<open>interp\<close>:
  every interior sample is replaced by the value, at the centre, of the least-squares
  polynomial of degree \<open>order\<close> through the \<open>window\<close> samples around it; the first and
  last \<open>window // 2\<close> samples are read off the polynomial fitted to the first and last
  \<open>window\<close> samples. The fitted values are the orthogonal projection of the window
  onto the polynomials, computed here by Gram-Schmidt on the monomials. scipy raises
  when the window is longer than the data or not longer than the order; the model is
  written for odd windows, the only ones \<open>_safe_savgol\<close> passes on.
\<close>

definition dot :: "real list \<Rightarrow> real list \<Rightarrow> real" where
  "dot u v = sum_list (map2 (\<lambda>a b. a * b) u v)"

definition residual :: "real list list \<Rightarrow> real list \<Rightarrow> real list" where
  "residual qs b = fold (\<lambda>q r. map2 (\<lambda>ri qi. ri - dot b q / dot q q * qi) r q) qs b"

fun orthobasis :: "real list list \<Rightarrow> real list list \<Rightarrow> real list list" where
  "orthobasis qs [] = qs"
| "orthobasis qs (b # bs) = orthobasis (qs @ [residual qs b]) bs"

definition polyfit_values :: "nat \<Rightarrow> real list \<Rightarrow> real list" where
  "polyfit_values order ys =
     (let basis = map (\<lambda>k. map (\<lambda>i. real i ^ k) [0..<length ys]) [0..<Suc order]
      in map2 (\<lambda>a b. a - b) ys (residual (orthobasis [] basis) ys))"

definition savgol_filter :: "real list \<Rightarrow> int \<Rightarrow> int \<Rightarrow> real list option" where
  "savgol_filter data window order =
     (let n = length data; w = nat window; h = w div 2 in
      if order < 0 \<or> window \<le> order \<or> even window \<or> int n < window then None
      else Some (map (\<lambda>i.
             if i < h then polyfit_values (nat order) (take w data) ! i
             else if n - h \<le> i then polyfit_values (nat order) (drop (n - w) data) ! (i - (n - w))
             else polyfit_values (nat order) (slice data (i - h) (i + h + 1)) ! h) [0..<n]))"

text \<open>Reals have no NaN, so nothing is ever interpolated.\<close>

definition np_real :: "real numlib" where
  "np_real = \<lparr> isnan = (\<lambda>v. False), interpolate = (\<lambda>d. d), savgol = savgol_filter,
               empty_like = (\<lambda>d. replicate (length d) 0) \<rparr>"

section \<open>preprocessing/time.py: the match clock\<close>

text \<open>
  \<open>calculate_match_clock\<close> dispatches on the type of \<open>frame\<close>: arrays take the
  vectorised branch, which returns seconds; anything else takes the scalar branch,
  which returns the text \<open>MM:SS\<close>. In the vectorised branch numpy divides by a zero
  \<open>fps\<close> without raising and yields infinities or NaN, which the reals do not have:
  the model reports \<open>NonFinite\<close> there.
\<close>

definition dict_get :: "('k \<rightharpoonup> 'v) \<Rightarrow> 'k \<Rightarrow> 'v \<Rightarrow> 'v" where
  "dict_get d k dflt = (case d k of None \<Rightarrow> dflt | Some v \<Rightarrow> v)"

text \<open>\<open>a[mask] = v\<close> with a boolean mask of the array's length.\<close>

definition mask_assign :: "'a list \<Rightarrow> bool list \<Rightarrow> 'a \<Rightarrow> error + 'a list" where
  "mask_assign xs msk v =
     (if length msk = length xs then Inr (map2 (\<lambda>a m. if m then v else a) xs msk)
      else Inl IndexError)"

function str_nat :: "nat \<Rightarrow> string" where
  "str_nat n =
     (if n < 10 then [''0123456789'' ! n]
      else str_nat (n div 10) @ [''0123456789'' ! (n mod 10)])"
  by pat_completeness auto
termination
  by (relation "measure id") auto

text \<open>The format \<open>:02d\<close>: decimal, padded with zeros to two digits.\<close>

definition format_02d :: "int \<Rightarrow> string" where
  "format_02d k =
     (if k < 0 then CHR ''-'' # str_nat (nat (- k))
      else if k < 10 then CHR ''0'' # str_nat (nat k)
      else str_nat (nat k))"

datatype clock_args = Scalar int int | Columns "int list" "int list"

datatype clock_result = Clock string | Seconds "real list"

definition calculate_match_clock ::
  "clock_args \<Rightarrow> (int \<rightharpoonup> int) \<Rightarrow> real \<Rightarrow> error + clock_result" where
  "calculate_match_clock args period_start_frames fps =
     (case args of
        Columns frame period \<Rightarrow>
          (let p1_mask = map (\<lambda>p. p = 1) period;
               p2_mask = map (\<lambda>p. p = 2) period;
               start_frames0 = replicate (length frame) (0::int);
               base_minutes0 = replicate (length frame) (0::real);
               p1_start = dict_get period_start_frames 1 0;
               p2_start = dict_get period_start_frames 2 0 in
           and_then (mask_assign start_frames0 p1_mask p1_start) (\<lambda>start_frames1.
           and_then (mask_assign start_frames1 p2_mask p2_start) (\<lambda>start_frames.
           and_then (mask_assign base_minutes0 p1_mask 0) (\<lambda>base_minutes1.
           and_then (mask_assign base_minutes1 p2_mask 45) (\<lambda>base_minutes.
           if fps = 0 then Inl NonFinite
           else
             (let seconds_elapsed = map2 (\<lambda>f s. real_of_int (f - s) / fps) frame start_frames;
                  total_seconds = map2 (\<lambda>b s. b * 60 + s) base_minutes seconds_elapsed
              in Inr (Seconds total_seconds)))))))
      | Scalar frame period \<Rightarrow>
          (let start = dict_get period_start_frames period 0;
               base = (if period = 1 then 0 else 45 :: int) in
           if fps = 0 then Inl ZeroDivisionError
           else
             (let seconds_elapsed = max 0 (real_of_int (frame - start) / fps);
                  total_minutes = real_of_int base + of_int \<lfloor>seconds_elapsed / 60\<rfloor>;
                  rem_seconds = \<lfloor>seconds_elapsed - 60 * of_int \<lfloor>seconds_elapsed / 60\<rfloor>\<rfloor>
              in Inr (Clock (format_02d \<lfloor>total_minutes\<rfloor> @ '':'' @ format_02d rem_seconds)))))"

section \<open>utils/coordinates.py: the coordinate normalizer\<close>

text \<open>A coordinate array may hold NaN, written \<open>None\<close>.\<close>

definition PITCH_LENGTH :: real where
  "PITCH_LENGTH = 105"

definition PITCH_WIDTH :: real where
  "PITCH_WIDTH = 68"

definition HALF_PITCH_LENGTH :: real where
  "HALF_PITCH_LENGTH = PITCH_LENGTH / 2"

definition HALF_PITCH_WIDTH :: real where
  "HALF_PITCH_WIDTH = PITCH_WIDTH / 2"

type_synonym coords = "real option list"

definition to_pitch_meters :: "coords \<Rightarrow> coords \<Rightarrow> string \<Rightarrow> coords \<times> coords" where
  "to_pitch_meters x y source_type =
     (if source_type = ''skillcorner'' then (x, y)
      else if source_type = ''0_1'' then
        (map (map_option (\<lambda>v. v * PITCH_LENGTH - HALF_PITCH_LENGTH)) x,
         map (map_option (\<lambda>v. v * PITCH_WIDTH - HALF_PITCH_WIDTH)) y)
      else if source_type = ''0_100'' then
        (map (map_option (\<lambda>v. v / 100 * PITCH_LENGTH - HALF_PITCH_LENGTH)) x,
         map (map_option (\<lambda>v. v / 100 * PITCH_WIDTH - HALF_PITCH_WIDTH)) y)
      else (x, y))"

fun non_nan :: "real option list \<Rightarrow> real list" where
  "non_nan [] = []"
| "non_nan (None # xs) = non_nan xs"
| "non_nan (Some v # xs) = v # non_nan xs"

definition nanmax_abs :: "coords \<Rightarrow> real option" where
  "nanmax_abs x = (if non_nan x = [] then None else Some (Max (set (map abs (non_nan x)))))"

definition validate_coordinate_bounds :: "coords \<Rightarrow> coords \<Rightarrow> real \<Rightarrow> error + bool" where
  "validate_coordinate_bounds x y tolerance =
     (if x = [] \<or> y = [] then Inl ValueError
      else
        (let x_max = nanmax_abs x;
             y_max = nanmax_abs y;
             limit_x = HALF_PITCH_LENGTH + tolerance;
             limit_y = HALF_PITCH_WIDTH + tolerance
         in Inr ((case x_max of None \<Rightarrow> False | Some m \<Rightarrow> m > limit_x) \<or>
                 (case y_max of None \<Rightarrow> False | Some m \<Rightarrow> m > limit_y))))"

record scaled_coordinates =
  x_scaled :: coords
  y_scaled :: coords
  scale_system :: string
  bounds_warning :: bool

definition infer_and_scale_coordinates :: "coords \<Rightarrow> coords \<Rightarrow> error + scaled_coordinates" where
  "infer_and_scale_coordinates x y =
     (let x_valid = non_nan x; y_valid = non_nan y in
      if length x_valid = 0 then
        Inr \<lparr> x_scaled = x, y_scaled = y, scale_system = ''empty'', bounds_warning = False \<rparr>
      else if y_valid = [] then Inl ValueError
      else
        (let min_x = Min (set x_valid); max_x = Max (set x_valid);
             min_y = Min (set y_valid); max_y = Max (set y_valid);
             system =
               (if max_x \<le> 15 / 10 \<and> max_y \<le> 15 / 10 \<and> min_x \<ge> 0 \<and> min_y \<ge> 0 then ''0_1''
                else if max_x \<le> 110 \<and> max_y \<le> 110 \<and> (max_x > 15 / 10 \<or> max_y > 15 / 10)
                        \<and> min_x \<ge> - 1 \<and> min_y \<ge> - 1 then ''0_100''
                else ''skillcorner_meters'');
             (xs, ys) = to_pitch_meters x y system
         in and_then (validate_coordinate_bounds xs ys 5) (\<lambda>warned.
              Inr \<lparr> x_scaled = xs, y_scaled = ys, scale_system = system, bounds_warning = warned \<rparr>)))"

subsection \<open>The specification's reading of the normalizer\<close>

datatype coordinate_system = UnitSquare | Percentage | PitchMeters

definition system_tag :: "coordinate_system \<Rightarrow> string" where
  "system_tag s =
     (case s of UnitSquare \<Rightarrow> ''0_1'' | Percentage \<Rightarrow> ''0_100'' | PitchMeters \<Rightarrow> ''skillcorner_meters'')"

text \<open>The precedence as the specification states it.\<close>

definition spec_infer_system :: "coords \<Rightarrow> coords \<Rightarrow> coordinate_system" where
  "spec_infer_system x y =
     (let xv = non_nan x; yv = non_nan y;
          max_abs_x = Max (set (map abs xv)); max_abs_y = Max (set (map abs yv));
          min_x = Min (set xv); min_y = Min (set yv) in
      if max_abs_x \<le> 15 / 10 \<and> max_abs_y \<le> 15 / 10 \<and> min_x \<ge> 0 \<and> min_y \<ge> 0 then UnitSquare
      else if max_abs_x \<le> 110 \<and> max_abs_y \<le> 110 \<and> min_x \<ge> - 1 \<and> min_y \<ge> - 1 then Percentage
      else PitchMeters)"

text \<open>The same precedence with the guard the code adds to the percentage rule.\<close>

definition guarded_infer_system :: "coords \<Rightarrow> coords \<Rightarrow> coordinate_system" where
  "guarded_infer_system x y =
     (let xv = non_nan x; yv = non_nan y;
          max_abs_x = Max (set (map abs xv)); max_abs_y = Max (set (map abs yv));
          min_x = Min (set xv); min_y = Min (set yv);
          max_x = Max (set xv); max_y = Max (set yv) in
      if max_abs_x \<le> 15 / 10 \<and> max_abs_y \<le> 15 / 10 \<and> min_x \<ge> 0 \<and> min_y \<ge> 0 then UnitSquare
      else if max_abs_x \<le> 110 \<and> max_abs_y \<le> 110 \<and> min_x \<ge> - 1 \<and> min_y \<ge> - 1
              \<and> (max_x > 15 / 10 \<or> max_y > 15 / 10) then Percentage
      else PitchMeters)"

definition spec_rescale :: "coordinate_system \<Rightarrow> coords \<Rightarrow> coords \<Rightarrow> coords \<times> coords" where
  "spec_rescale system x y =
     (case system of
        UnitSquare \<Rightarrow>
          (map (map_option (\<lambda>v. v * 105 - 525 / 10)) x, map (map_option (\<lambda>v. v * 68 - 34)) y)
      | Percentage \<Rightarrow>
          (map (map_option (\<lambda>v. v / 100 * 105 - 525 / 10)) x,
           map (map_option (\<lambda>v. v / 100 * 68 - 34)) y)
      | PitchMeters \<Rightarrow> (x, y))"

section \<open>preprocessing/data.py: extraction and kinematic derivation\<close>

text \<open>
  The dataset is the list of its frames; a frame lists, per player (named by the text
  of the player's id), the coordinates if there are any. Positions and timestamps are
  finite reals: a track with NaN positions is outside this model, and timestamps are
  seconds.
\<close>

definition MAX_VELOCITY_KMH :: real where
  "MAX_VELOCITY_KMH = 42"

definition VELOCITY_ANOMALY_THRESHOLD :: real where
  "VELOCITY_ANOMALY_THRESHOLD = 45"

record tracking_frame =
  frame_id :: int
  frame_timestamp :: real
  frame_period_id :: int
  players_data :: "(string \<times> (real \<times> real) option) list"

record tracking_row =
  row_frame :: int
  row_timestamp :: real
  row_period :: int
  row_x :: real
  row_y :: real

text \<open>
  The DataFrame the function returns, by column; a column the call did not create is
  \<open>None\<close>. The three last fields are what the call logged: the number of speeds above
  the anomaly threshold (when there are any), the low-detection warning, and the number
  of dropped frames (when more than half were dropped).
\<close>

record player_frame =
  col_frame :: "int list"
  col_timestamp :: "real list"
  col_period :: "int list"
  col_x :: "real list"
  col_y :: "real list"
  col_x_smooth :: "real list"
  col_y_smooth :: "real list"
  col_time_delta :: "real option list option"
  col_velocity_raw :: "real list option"
  col_vx :: "real list option"
  col_vy :: "real list option"
  col_velocity :: "real list option"
  col_velocity_kmh :: "real list option"
  col_acceleration :: "real list option"
  col_is_detected :: "bool list option"
  logged_anomaly_count :: "nat option"
  logged_low_detection :: bool
  logged_dropped_frames :: "nat option"

definition empty_frame :: player_frame where
  "empty_frame = \<lparr> col_frame = [], col_timestamp = [], col_period = [], col_x = [], col_y = [],
     col_x_smooth = [], col_y_smooth = [], col_time_delta = None, col_velocity_raw = None,
     col_vx = None, col_vy = None, col_velocity = None, col_velocity_kmh = None,
     col_acceleration = None, col_is_detected = None, logged_anomaly_count = None,
     logged_low_detection = False, logged_dropped_frames = None \<rparr>"

text \<open>
  The loop over \<open>dataset.frames\<close>: the first entry of the frame for the player, kept
  when it has coordinates.
\<close>

definition collect_records :: "tracking_frame list \<Rightarrow> string \<Rightarrow> tracking_row list" where
  "collect_records frames pid_str =
     concat (map (\<lambda>f.
       (case map_of (players_data f) pid_str of
          Some (Some (cx, cy)) \<Rightarrow>
            [\<lparr> row_frame = frame_id f, row_timestamp = frame_timestamp f,
               row_period = frame_period_id f, row_x = cx, row_y = cy \<rparr>]
        | _ \<Rightarrow> [])) frames)"

text \<open>
  \<open>drop_duplicates(subset=['timestamp'], keep='first')\<close>, with the timestamps seen so
  far. The sort before it, \<open>sort_values('timestamp')\<close>, is modelled by the stable
  \<open>sort_key\<close>; pandas leaves the order of equal timestamps open.
\<close>

fun drop_duplicates :: "real list \<Rightarrow> tracking_row list \<Rightarrow> tracking_row list" where
  "drop_duplicates seen [] = []"
| "drop_duplicates seen (r # rs) =
     (if row_timestamp r \<in> set seen then drop_duplicates seen rs
      else r # drop_duplicates (row_timestamp r # seen) rs)"

text \<open>
  \<open>Series.quantile(q)\<close> with linear interpolation between the two order statistics
  around position \<open>q * (n - 1)\<close>.
\<close>

definition quantile :: "real list \<Rightarrow> real \<Rightarrow> real" where
  "quantile xs q =
     (let s = sort xs;
          pos = q * real (length xs - 1);
          lo = nat \<lfloor>pos\<rfloor>;
          hi = min (lo + 1) (length xs - 1)
      in s ! lo + (pos - real lo) * (s ! hi - s ! lo))"

text \<open>
  \<open>np.gradient(f)\<close> with unit spacing, and \<open>np.gradient(f, t)\<close> with sample points
  \<open>t\<close>: one-sided differences at both ends, the second-order formula for uneven
  spacing inside (for even spacing numpy uses \<open>(f[i+1] - f[i-1]) / (2 h)\<close>, the same
  number). Both need two samples.
\<close>

definition gradient_unit :: "real list \<Rightarrow> error + real list" where
  "gradient_unit f =
     (let n = length f in
      if n < 2 then Inl ValueError
      else Inr (map (\<lambda>i.
             if i = 0 then f ! 1 - f ! 0
             else if i = n - 1 then f ! (n - 1) - f ! (n - 2)
             else (f ! (i + 1) - f ! (i - 1)) / 2) [0..<n]))"

definition gradient :: "real list \<Rightarrow> real list \<Rightarrow> error + real list" where
  "gradient f t =
     (let n = length f in
      if length t \<noteq> n \<or> n < 2 then Inl ValueError
      else Inr (map (\<lambda>i.
             if i = 0 then (f ! 1 - f ! 0) / (t ! 1 - t ! 0)
             else if i = n - 1 then (f ! (n - 1) - f ! (n - 2)) / (t ! (n - 1) - t ! (n - 2))
             else
               (let dx1 = t ! i - t ! (i - 1);
                    dx2 = t ! (i + 1) - t ! i;
                    a = - dx2 / (dx1 * (dx1 + dx2));
                    b = (dx2 - dx1) / (dx1 * dx2);
                    c = dx1 / (dx2 * (dx1 + dx2))
                in a * f ! (i - 1) + b * f ! i + c * f ! (i + 1))) [0..<n]))"

text \<open>
  \<open>np.nanmedian\<close> (NaN when every entry is NaN), \<open>Series.fillna\<close>, \<open>np.clip\<close> and
  the selection of rows by a boolean column.
\<close>

definition nanmedian :: "real option list \<Rightarrow> real option" where
  "nanmedian xs =
     (let s = sort (non_nan xs); n = length s in
      if n = 0 then None
      else if odd n then Some (s ! (n div 2))
      else Some ((s ! (n div 2 - 1) + s ! (n div 2)) / 2))"

definition fillna :: "real option list \<Rightarrow> real option \<Rightarrow> real option list" where
  "fillna xs v = map (\<lambda>a. case a of None \<Rightarrow> v | Some b \<Rightarrow> Some b) xs"

definition clip :: "real \<Rightarrow> real \<Rightarrow> real \<Rightarrow> real" where
  "clip v lo hi = min (max v lo) hi"

definition keep_rows :: "bool list \<Rightarrow> 'a list \<Rightarrow> 'a list" where
  "keep_rows msk xs = map fst (filter snd (zip xs msk))"

definition filter_rows :: "bool list \<Rightarrow> player_frame \<Rightarrow> player_frame" where
  "filter_rows msk df =
     df \<lparr> col_frame := keep_rows msk (col_frame df),
          col_timestamp := keep_rows msk (col_timestamp df),
          col_period := keep_rows msk (col_period df),
          col_x := keep_rows msk (col_x df),
          col_y := keep_rows msk (col_y df),
          col_x_smooth := keep_rows msk (col_x_smooth df),
          col_y_smooth := keep_rows msk (col_y_smooth df),
          col_time_delta := map_option (keep_rows msk) (col_time_delta df),
          col_velocity_raw := map_option (keep_rows msk) (col_velocity_raw df),
          col_vx := map_option (keep_rows msk) (col_vx df),
          col_vy := map_option (keep_rows msk) (col_vy df),
          col_velocity := map_option (keep_rows msk) (col_velocity df),
          col_velocity_kmh := map_option (keep_rows msk) (col_velocity_kmh df),
          col_acceleration := map_option (keep_rows msk) (col_acceleration df),
          col_is_detected := map_option (keep_rows msk) (col_is_detected df) \<rparr>"

text \<open>The rescaling of normalised coordinates and the smoothing of the positions.\<close>

definition scale_and_smooth :: "tracking_row list \<Rightarrow> bool \<Rightarrow> error + player_frame" where
  "scale_and_smooth rows smooth =
     (let xs0 = map row_x rows; ys0 = map row_y rows; ts = map row_timestamp rows;
          x_p99 = quantile xs0 (99 / 100);
          scaled = (rows \<noteq> [] \<and> x_p99 < 12 / 10);
          xs = (if scaled then map (\<lambda>v. v * 105) xs0 else xs0);
          ys = (if scaled then map (\<lambda>v. v * 68) ys0 else ys0) in
      and_then
        (if smooth \<and> length rows > 5
         then and_then (apply_gap_aware_smoothing np_real xs ts (2 / 10)
                          SMOOTHING_WINDOW_SIZE SMOOTHING_POLY_ORDER) (\<lambda>xsm.
              and_then (apply_gap_aware_smoothing np_real ys ts (2 / 10)
                          SMOOTHING_WINDOW_SIZE SMOOTHING_POLY_ORDER) (\<lambda>ysm. Inr (xsm, ysm)))
         else Inr (xs, ys))
        (\<lambda>(xsm, ysm).
           Inr (empty_frame \<lparr> col_frame := map row_frame rows, col_timestamp := ts,
                  col_period := map row_period rows, col_x := xs, col_y := ys,
                  col_x_smooth := xsm, col_y_smooth := ysm \<rparr>)))"

text \<open>The block under \<open>include_velocity\<close>: time deltas, velocity, acceleration.\<close>

definition derive_kinematics :: "player_frame \<Rightarrow> bool \<Rightarrow> error + player_frame" where
  "derive_kinematics df smooth =
     (let t = col_timestamp df; x = col_x_smooth df; y = col_y_smooth df; n = length t in
      and_then (gradient_unit t) (\<lambda>dt0.
      let dt = map (\<lambda>d. if d < 1 / 10 ^ 4 then None else Some d) dt0;
          time_delta = (if n > 1 then fillna dt (nanmedian dt) else dt) in
      and_then (gradient x t) (\<lambda>vx.
      and_then (gradient y t) (\<lambda>vy.
      let speed_ms0 = map2 (\<lambda>a b. sqrt (a\<^sup>2 + b\<^sup>2)) vx vy;
          max_ms = MAX_VELOCITY_KMH / (36 / 10);
          anomaly_ms = VELOCITY_ANOMALY_THRESHOLD / (36 / 10);
          anomaly_count = length (filter (\<lambda>v. v > anomaly_ms) speed_ms0);
          speed_ms = map (\<lambda>v. clip v 0 max_ms) speed_ms0 in
      and_then
        (if smooth \<and> n > 5 then apply_gap_aware_smoothing np_real speed_ms t (2 / 10) 5 2
         else Inr speed_ms) (\<lambda>velocity.
      and_then
        (if n > 2 then
           and_then (gradient velocity t) (\<lambda>accel.
             if smooth \<and> n > 5
             then and_then (apply_gap_aware_smoothing np_real accel t (2 / 10) 5 2) (\<lambda>a. Inr (Some a))
             else Inr (Some accel))
         else Inr None) (\<lambda>acceleration.
      Inr (df \<lparr> col_time_delta := Some time_delta,
                col_velocity_raw := Some speed_ms,
                col_vx := Some vx, col_vy := Some vy,
                col_velocity := Some velocity,
                col_velocity_kmh := Some (map (\<lambda>v. v * (36 / 10)) velocity),
                col_acceleration := acceleration,
                logged_anomaly_count := (if anomaly_count > 0 then Some anomaly_count else None) \<rparr>)))))))"

text \<open>The detection filter; without NaN positions every sample counts as detected.\<close>

definition detection_filter :: "player_frame \<Rightarrow> real \<Rightarrow> player_frame" where
  "detection_filter df min_detection_rate =
     (let n = length (col_x df) in
      if n > 0 \<and> min_detection_rate > 0 then
        (let is_detected = replicate n True;
             df1 = df \<lparr> col_is_detected := Some is_detected \<rparr>;
             detection_rate = real (length (filter (\<lambda>b. b) is_detected)) / real n in
         if detection_rate < min_detection_rate then
           (let df2 = filter_rows is_detected df1;
                m = length (col_x df2) in
            df2 \<lparr> logged_low_detection := True,
                  logged_dropped_frames := (if real m < real n * (5 / 10) then Some (n - m) else None) \<rparr>)
         else df1)
      else df)"

text \<open>
  \<open>extract_player_data\<close>: \<open>pid_str\<close> is \<open>str(player_id)\<close>; an empty DataFrame when
  the player has no record.
\<close>

definition extract_player_data ::
  "tracking_frame list \<Rightarrow> string \<Rightarrow> bool \<Rightarrow> bool \<Rightarrow> real \<Rightarrow> error + player_frame" where
  "extract_player_data frames pid_str include_velocity smooth min_detection_rate =
     (let raw_records = collect_records frames pid_str in
      if raw_records = [] then Inr empty_frame
      else
        (let rows = drop_duplicates [] (sort_key row_timestamp raw_records) in
         and_then (scale_and_smooth rows smooth) (\<lambda>df.
         and_then (if include_velocity \<and> length rows > 1 then derive_kinematics df smooth else Inr df)
           (\<lambda>df. Inr (detection_filter df min_detection_rate)))))"

subsection \<open>A track used below: two frames standing, then four at 15 m/s\<close>

definition sprint_frames :: "tracking_frame list" where
  "sprint_frames =
     [\<lparr> frame_id = 0, frame_timestamp = 0, frame_period_id = 1, players_data = [(''7'', Some (0, 0))] \<rparr>,
      \<lparr> frame_id = 1, frame_timestamp = 1 / 10, frame_period_id = 1, players_data = [(''7'', Some (0, 0))] \<rparr>,
      \<lparr> frame_id = 2, frame_timestamp = 1 / 5, frame_period_id = 1, players_data = [(''7'', Some (3 / 2, 0))] \<rparr>,
      \<lparr> frame_id = 3, frame_timestamp = 3 / 10, frame_period_id = 1, players_data = [(''7'', Some (3, 0))] \<rparr>,
      \<lparr> frame_id = 4, frame_timestamp = 2 / 5, frame_period_id = 1, players_data = [(''7'', Some (9 / 2, 0))] \<rparr>,
      \<lparr> frame_id = 5, frame_timestamp = 1 / 2, frame_period_id = 1, players_data = [(''7'', Some (6, 0))] \<rparr>]"

definition sprint_rows :: "tracking_row list" where
  "sprint_rows =
     [\<lparr> row_frame = 0, row_timestamp = 0, row_period = 1, row_x = 0, row_y = 0 \<rparr>,
      \<lparr> row_frame = 1, row_timestamp = 1 / 10, row_period = 1, row_x = 0, row_y = 0 \<rparr>,
      \<lparr> row_frame = 2, row_timestamp = 1 / 5, row_period = 1, row_x = 3 / 2, row_y = 0 \<rparr>,
      \<lparr> row_frame = 3, row_timestamp = 3 / 10, row_period = 1, row_x = 3, row_y = 0 \<rparr>,
      \<lparr> row_frame = 4, row_timestamp = 2 / 5, row_period = 1, row_x = 9 / 2, row_y = 0 \<rparr>,
      \<lparr> row_frame = 5, row_timestamp = 1 / 2, row_period = 1, row_x = 6, row_y = 0 \<rparr>]"

definition sprint_t :: "real list" where
  "sprint_t = [0, 1 / 10, 1 / 5, 3 / 10, 2 / 5, 1 / 2]"

definition sprint_x :: "real list" where
  "sprint_x = [0, 0, 3 / 2, 3, 9 / 2, 6]"

section \<open>Properties of the distance aggregator\<close>

lemma and_then_Inr [simp]: "and_then (Inr v) f = f v"
  by (simp add: and_then_def)

lemma and_then_Inl [simp]: "and_then (Inl e) f = Inl e"
  by (simp add: and_then_def)

lemma length_diff [simp]: "length (diff xs) = length xs - 1"
  by (induction xs rule: diff.induct) auto

lemma nth_diff: "Suc i < length xs \<Longrightarrow> diff xs ! i = xs ! Suc i - xs ! i"
proof (induction xs arbitrary: i rule: diff.induct)
  case (1 a b xs)
  then show ?case by (cases i) auto
qed auto

lemma diff_as_map: "diff xs = map (\<lambda>i. xs ! Suc i - xs ! i) [0..<length xs - 1]"
  by (rule nth_equalityI) (auto simp: nth_diff)

lemma broadcast2_same_length:
  "length xs = length ys \<Longrightarrow> broadcast2 f xs ys = Inr (map2 f xs ys)"
  by (simp add: broadcast2_def)

lemma map2_of_maps:
  "map2 f (map g ks) (map h ks) = map (\<lambda>i. f (g i) (h i)) ks"
  by (induction ks) auto

lemma sum_list_masked:
  "sum_list (map fst (filter snd (zip (map d ks) (map m ks)))) =
   sum_list (map (\<lambda>i. if m i then d i else (0::real)) ks)"
  by (induction ks) auto

lemma sum_list_upt_sum: "sum_list (map f [0..<n]) = (\<Sum>i<n. (f i :: real))"
  by (simp add: interv_sum_list_conv_sum_set_nat atLeast0LessThan)

text \<open>
  Claim C6. For every position series given to the distance aggregator, a step whose
  displacement \<open>sqrt (dx\<^sup>2 + dy\<^sup>2)\<close> exceeds 5.0 m contributes exactly zero to
  \<open>total_distance\<close>, to \<open>sprint_distance\<close> and to \<open>hsr_distance\<close>: each of the
  three is the sum, over the steps, of a term that is zero for such a step. The witness
  is a track with a single 10 m jump between two steps of 1 m.
\<close>

theorem C6_long_steps_contribute_zero:
  assumes "length x = length y" and "fps \<noteq> 0"
  shows "\<exists>m. calculate_distance_metrics x y fps = Inr m \<and>
     total_distance m =
       (\<Sum>i<length x - 1. if step_displacement x y i > 5 then 0 else step_displacement x y i) \<and>
     sprint_distance m =
       (\<Sum>i<length x - 1.
          if step_displacement x y i > 5 then 0
          else if step_displacement x y i / (1 / fps) * 36 / 10 > 25 then step_displacement x y i
          else 0) \<and>
     hsr_distance m =
       (\<Sum>i<length x - 1.
          if step_displacement x y i > 5 then 0
          else if step_displacement x y i / (1 / fps) * 36 / 10 > 20 then step_displacement x y i
          else 0)"
proof -
  let ?n = "length x - 1"
  let ?d = "step_displacement x y"
  have dist: "broadcast2 (\<lambda>a b. sqrt (a\<^sup>2 + b\<^sup>2)) (diff x) (diff y) = Inr (map ?d [0..<?n])"
    using assms(1)
    by (simp add: broadcast2_same_length diff_as_map [of x] diff_as_map [of y] map2_of_maps
        step_displacement_def)
  have vel: "calculate_velocity x y fps ''km/h'' None =
             Inr (map (\<lambda>i. ?d i / (1 / fps) * 36 / 10) [0..<?n])"
    using assms(2) by (simp add: calculate_velocity_def dist Let_def o_def)
  show ?thesis
    unfolding calculate_distance_metrics_def vel
    apply (simp add: dist Let_def map2_of_maps broadcast2_same_length bool_index_def
        sum_list_masked MAX_STEP_DISTANCE_def sum_list_upt_sum not_le o_def
        del: One_nat_def cong: if_cong)
    apply (intro conjI sum.cong refl)
     apply simp_all
    done
qed

lemma sqrt_100: "sqrt 100 = 10"
  by (rule real_sqrt_unique) simp_all


theorem C6_long_steps_contribute_zero_witness:
  "length [0, 1, 11, 12 :: real] = length [0, 0, 0, 0 :: real] \<and> (10 :: real) \<noteq> 0 \<and>
   (\<exists>m. calculate_distance_metrics [0, 1, 11, 12] [0, 0, 0, 0] 10 = Inr m \<and>
        total_distance m = 2 \<and> sprint_distance m = 2 \<and> hsr_distance m = 2)"
proof -
  have idx: "{..<3::nat} = {0, 1, 2}" by auto
  show ?thesis
    using C6_long_steps_contribute_zero [of "[0, 1, 11, 12]" "[0, 0, 0, 0]" 10]
    by (simp add: step_displacement_def idx sqrt_100)
qed

lemma diff_short: "length xs \<le> 1 \<Longrightarrow> diff xs = []"
  by (cases xs rule: diff.cases) auto

text \<open>
  Claim C7, amended. For a track of zero or one sample and a frame rate that is not
  zero, \<open>calculate_distance_metrics\<close> raises nothing and returns the record whose five
  metrics are all zero.
\<close>

theorem C7_degenerate_track_all_zero:
  assumes "length x \<le> 1" and "length y \<le> 1" and "fps \<noteq> 0"
  shows "calculate_distance_metrics x y fps =
         Inr \<lparr> total_distance = 0, sprint_distance = 0, hsr_distance = 0,
               max_speed = 0, avg_speed = 0 \<rparr>"
  using assms
  by (simp add: calculate_distance_metrics_def calculate_velocity_def broadcast2_def
      bool_index_def diff_short)

theorem C7_degenerate_track_all_zero_witness:
  "length [3 :: real] \<le> 1 \<and> length [4 :: real] \<le> 1 \<and> (10 :: real) \<noteq> 0 \<and>
   calculate_distance_metrics [3] [4] 10 =
     Inr \<lparr> total_distance = 0, sprint_distance = 0, hsr_distance = 0,
           max_speed = 0, avg_speed = 0 \<rparr>"
  using C7_degenerate_track_all_zero [of "[3]" "[4]" 10]
  by simp

text \<open>
  The claim as stated fails for a frame rate of zero: \<open>1.0 / fps\<close> is evaluated
  whatever the length of the track, and raises.
\<close>

theorem C7_zero_fps_raises_counterexample:
  "length [3 :: real] \<le> 1 \<and> length [4 :: real] \<le> 1 \<and>
   calculate_distance_metrics [3] [4] 0 = Inl ZeroDivisionError"
  by (simp add: calculate_distance_metrics_def calculate_velocity_def)

section \<open>Properties of the gap-aware smoother\<close>

lemma length_safe_savgol: "numlib_ok lib \<Longrightarrow> length (safe_savgol lib d w p) = length d"
  by (auto simp: safe_savgol_def numlib_ok_def Let_def split: option.splits)



lemma length_smooth_segment: "numlib_ok lib \<Longrightarrow> length (smooth_segment lib seg W P) = length seg"
  by (simp add: smooth_segment_def Let_def length_safe_savgol)

lemma length_slice: "length (slice xs s e) = min (e - s) (length xs - s)"
  by (simp add: slice_def)

lemma slice_assign_fit:
  "s \<le> e \<Longrightarrow> e \<le> length xs \<Longrightarrow> length ys = e - s \<Longrightarrow>
   slice_assign xs s e ys = Inr (take s xs @ ys @ drop e xs)"
  by (simp add: slice_assign_def length_slice Let_def)

lemma drop_past_patch:
  "start \<le> e \<Longrightarrow> e \<le> k \<Longrightarrow> e \<le> length sm \<Longrightarrow> length r = e - start \<Longrightarrow>
   drop k (take start sm @ r @ drop e sm) = drop k sm"
  by simp

lemma smooth_loop_concat:
  assumes "numlib_ok lib" "sorted (start # bs)" "\<forall>b\<in>set (start # bs). b \<le> length vals"
    "length sm = length vals"
  shows "smooth_loop lib vals W P bs start sm =
         Inr (take start sm @ concat (map (\<lambda>seg. smooth_segment lib seg W P) (segments_between bs start vals))
              @ drop (last (start # bs)) sm)"
  using assms
proof (induction bs arbitrary: start sm)
  case Nil
  then show ?case by simp
next
  case (Cons e bs)
  let ?r = "smooth_segment lib (slice vals start e) W P"
  let ?sm = "take start sm @ ?r @ drop e sm"
  have se: "start \<le> e" "e \<le> length vals" "start \<le> length vals" using Cons.prems by auto
  have lr: "length ?r = e - start"
    using se Cons.prems(1) by (simp add: length_smooth_segment length_slice)
  have asg: "slice_assign sm start e ?r = Inr ?sm"
    using se lr Cons.prems(4) by (intro slice_assign_fit) auto
  have lsm: "length ?sm = length vals" using se lr Cons.prems(4) by simp
  have le: "e \<le> last (e # bs)" using Cons.prems(2)
    by (cases bs) (auto simp: last_in_set dest!: bspec [where x="last bs"])
  have ih: "smooth_loop lib vals W P bs e ?sm =
     Inr (take e ?sm @ concat (map (\<lambda>seg. smooth_segment lib seg W P) (segments_between bs e vals))
              @ drop (last (e # bs)) ?sm)"
    using Cons.prems lsm by (intro Cons.IH) auto
  have t: "take e ?sm = take start sm @ ?r" using se lr Cons.prems(4) by simp
  have d: "drop (last (e # bs)) ?sm = drop (last (e # bs)) sm"
    using se lr le Cons.prems(4) by (intro drop_past_patch) auto
  show ?case
    using asg ih t d by simp
qed


lemma diff_prepend_first_Cons: "diff_prepend_first (t # r) = Inr (0 # diff (t # r))"
  by (simp add: diff_prepend_first_def)

lemma where_gt_sorted: "sorted (where_gt dt g)"
  by (simp add: where_gt_def sorted_wrt_filter)

lemma where_gt_bound: "i \<in> set (where_gt dt g) \<Longrightarrow> i < length dt"
  by (simp add: where_gt_def)

lemma where_gt_gaps:
  assumes "ts \<noteq> []"
  shows "where_gt (0 # diff ts) g = (if g < 0 then [0] else []) @ gap_positions ts g"
proof -
  have n: "length (0 # diff ts) = length ts" using assms by (cases ts) auto
  have up: "[0..<length ts] = 0 # [1..<length ts]" using assms by (simp add: upt_conv_Cons)
  have "filter (\<lambda>i. (0 # diff ts) ! i > g) [1..<length ts] = gap_positions ts g"
    unfolding gap_positions_def
    by (rule filter_cong) (auto simp: nth_Cons' nth_diff)
  moreover have "where_gt (0 # diff ts) g = filter (\<lambda>i. (0 # diff ts) ! i > g) (0 # [1..<length ts])"
    unfolding where_gt_def n up ..
  ultimately show ?thesis
    by simp
qed

lemma smoothing_unfold:
  assumes ok: "numlib_ok lib" and len: "length ts = length vals"
  shows "apply_gap_aware_smoothing lib vals ts g W P =
     (if int (length vals) < W then Inr vals
      else if vals = [] then Inl IndexError
      else if where_gt (0 # diff ts) g = [] then Inr (safe_savgol lib vals W P)
      else Inr (concat (map (\<lambda>seg. smooth_segment lib seg W P)
                  (segments_between (where_gt (0 # diff ts) g @ [length vals]) 0 vals))))"
proof (cases "int (length vals) < W \<or> vals = []")
  case True
  then show ?thesis using len
    by (auto simp: apply_gap_aware_smoothing_def diff_prepend_first_def Let_def)
next
  case False
  then obtain t r where ts: "ts = t # r" using len by (cases ts) auto
  let ?sp = "where_gt (0 # diff ts) g"
  have ldt: "length (0 # diff ts) = length vals" using ts len by simp
  have srt: "sorted (0 # (?sp @ [length vals]))"
    using where_gt_bound [of _ "0 # diff ts" g] ldt
    by (auto simp: sorted_append where_gt_sorted intro: less_imp_le)
  have bnd: "\<forall>b\<in>set (0 # (?sp @ [length vals])). b \<le> length vals"
    using where_gt_bound [of _ "0 # diff ts" g] ldt by (auto intro: less_imp_le)
  have "smooth_loop lib vals W P (?sp @ [length vals]) 0 (empty_like lib vals) =
        Inr (take 0 (empty_like lib vals) @
             concat (map (\<lambda>seg. smooth_segment lib seg W P) (segments_between (?sp @ [length vals]) 0 vals)) @
             drop (last (0 # (?sp @ [length vals]))) (empty_like lib vals))"
    using ok srt bnd by (intro smooth_loop_concat) (auto simp: numlib_ok_def)
  moreover have "drop (last (0 # (?sp @ [length vals]))) (empty_like lib vals) = []"
    using ok by (simp add: numlib_ok_def)
  ultimately show ?thesis using False ts
    by (simp add: apply_gap_aware_smoothing_def diff_prepend_first_Cons Let_def)
qed

lemma length_concat_segments:
  assumes "sorted (s # bs)" "\<forall>b\<in>set (s # bs). b \<le> length xs" "\<And>seg. length (f seg) = length seg"
  shows "length (concat (map f (segments_between bs s xs))) = last (s # bs) - s"
  using assms(1,2)
proof (induction bs arbitrary: s)
  case Nil
  then show ?case by simp
next
  case (Cons e bs)
  have le: "e \<le> last (e # bs)" using Cons.prems(1)
    by (cases bs) (auto simp: last_in_set dest!: bspec [where x="last bs"])
  have "length (concat (map f (segments_between bs e xs))) = last (e # bs) - e"
    using Cons.prems by (intro Cons.IH) auto
  moreover have "s \<le> e" "e \<le> length xs" using Cons.prems by auto
  ultimately show ?case using le by (simp add: assms(3) length_slice min_def)
qed

lemma smoothing_returns:
  assumes ok: "numlib_ok lib" and len: "length ts = length vals" and nz: "0 < W \<or> vals \<noteq> []"
  shows "\<exists>out. apply_gap_aware_smoothing lib vals ts g W P = Inr out \<and> length out = length vals"
proof -
  let ?sp = "where_gt (0 # diff ts) g"
  have ldt: "vals \<noteq> [] \<Longrightarrow> length (0 # diff ts) = length vals" using len by (cases ts) auto
  have "length (concat (map (\<lambda>seg. smooth_segment lib seg W P)
                  (segments_between (?sp @ [length vals]) 0 vals))) = last (0 # (?sp @ [length vals])) - 0"
    if "vals \<noteq> []"
    using where_gt_bound [of _ "0 # diff ts" g] ldt [OF that] ok
    by (intro length_concat_segments) (auto simp: sorted_append where_gt_sorted length_smooth_segment intro: less_imp_le)
  then show ?thesis
    using nz by (auto simp: smoothing_unfold [OF ok len] length_safe_savgol [OF ok])
qed


text \<open>
  Claim C4. For every series and its timestamp array (one timestamp per sample), the
  gap-aware smoother returns a series of exactly the length of its input, however many
  segments the gaps cut it into and whatever their lengths. The call returns (it raises
  only for an empty series together with a window size that is not positive, where
  \<open>ts[0]\<close> is read).
\<close>

theorem C4_output_length_equals_input_length:
  assumes "numlib_ok lib" and "length ts = length vals" and "0 < W \<or> vals \<noteq> []"
  shows "\<exists>out. apply_gap_aware_smoothing lib vals ts g W P = Inr out \<and> length out = length vals"
  using assms by (rule smoothing_returns)

lemma smooth_segment_Nil: "numlib_ok lib \<Longrightarrow> smooth_segment lib [] W P = []"
  using length_smooth_segment [of lib "[]" W P] by simp

lemma smoothing_one_gap:
  assumes ok: "numlib_ok lib" and len: "length ts = length a + length b"
    and gap: "gap_positions ts g = [length a]"
  shows "apply_gap_aware_smoothing lib (a @ b) ts g W P =
     (if int (length a + length b) < W then Inr (a @ b)
      else Inr (smooth_segment lib a W P @ smooth_segment lib b W P))"
proof -
  have "length a \<in> set (gap_positions ts g)" using gap by simp
  then have k: "0 < length a" "length a < length ts" by (auto simp: gap_positions_def)
  then have ne: "ts \<noteq> []" "a @ b \<noteq> []" by auto
  have sp: "where_gt (0 # diff ts) g = (if g < 0 then [0] else []) @ [length a]"
    using where_gt_gaps [OF ne(1)] gap by simp
  have seg: "concat (map (\<lambda>seg. smooth_segment lib seg W P)
      (segments_between (where_gt (0 # diff ts) g @ [length (a @ b)]) 0 (a @ b))) =
      smooth_segment lib a W P @ smooth_segment lib b W P"
    using ok by (simp add: sp slice_def smooth_segment_Nil)
  have len': "length ts = length (a @ b)" using len by simp
  show ?thesis
    unfolding smoothing_unfold [OF ok len'] seg using ne sp by auto
qed

text \<open>
  Claim C5. Let the timestamps have exactly one delta above \<open>max_gap_seconds\<close>, at
  index \<open>length a\<close>, so that the series is \<open>a @ b\<close> with \<open>a\<close> before the gap and
  \<open>b\<close> from it on. Replacing \<open>b\<close> by any \<open>b'\<close> leaves the output on the indices of
  \<open>a\<close> identical, and replacing \<open>a\<close> by any \<open>a'\<close> leaves the output on the indices of
  \<open>b\<close> identical: a two-run noninterference statement, in both directions.
\<close>

theorem C5_no_influence_across_gap:
  assumes ok: "numlib_ok lib" and len: "length ts = length a + length b"
    and gap: "gap_positions ts g = [length a]"
    and la: "length a' = length a" and lb: "length b' = length b"
  shows "\<exists>out out_r out_l.
           apply_gap_aware_smoothing lib (a @ b) ts g W P = Inr out \<and>
           apply_gap_aware_smoothing lib (a @ b') ts g W P = Inr out_r \<and>
           apply_gap_aware_smoothing lib (a' @ b) ts g W P = Inr out_l \<and>
           take (length a) out_r = take (length a) out \<and>
           drop (length a) out_l = drop (length a) out"
proof -
  have 1: "length ts = length a + length b'" using len lb by simp
  have 2: "length ts = length a' + length b" using len la by simp
  have 3: "gap_positions ts g = [length a']" using gap la by simp
  show ?thesis
    unfolding smoothing_one_gap [OF ok len gap] smoothing_one_gap [OF ok 1 gap]
      smoothing_one_gap [OF ok 2 3]
    using la lb by (simp add: length_smooth_segment [OF ok])
qed


lemma np_real_ok: "numlib_ok np_real"
  by (auto simp: numlib_ok_def np_real_def savgol_filter_def Let_def split: if_splits)






lemma upt5: "[0..<5] = [0, 1, 2, 3, 4]"
  by (simp add: upt_rec)

lemma upt3: "[0..<3] = [0, 1, 2]"
  by (simp add: upt_rec)

lemma polyfit_values_5_2:
  "polyfit_values 2 [a, b, c, d, e] =
     [(31 * a + 9 * b - 3 * c - 5 * d + 3 * e) / 35,
      (9 * a + 13 * b + 12 * c + 6 * d - 5 * e) / 35,
      (- 3 * a + 12 * b + 17 * c + 12 * d - 3 * e) / 35,
      (- 5 * a + 6 * b + 12 * c + 13 * d + 9 * e) / 35,
      (3 * a - 5 * b - 3 * c + 9 * d + 31 * e) / 35]"
  by (simp add: polyfit_values_def residual_def dot_def upt5 upt3 field_simps)


lemma gaps_example:
  "gap_positions [0, 1, 2, 3, 4, 10, 11, 12, 13, 14] 2 = [5]"
  by (simp add: gap_positions_def upt_rec)



theorem C4_output_length_equals_input_length_witness:
  "numlib_ok np_real \<and>
   length [0, 1, 2, 3, 4, 10, 11, 12, 13, 14 :: real] =
     length [0, 0, 35, 0, 0, 7, 7, 7, 7, 7 :: real] \<and>
   (\<exists>out. apply_gap_aware_smoothing np_real [0, 0, 35, 0, 0, 7, 7, 7, 7, 7]
      [0, 1, 2, 3, 4, 10, 11, 12, 13, 14] 2 7 2 = Inr out \<and>
      length out = length [0, 0, 35, 0, 0, 7, 7, 7, 7, 7 :: real])"
  using C4_output_length_equals_input_length [OF np_real_ok,
      of "[0, 1, 2, 3, 4, 10, 11, 12, 13, 14]"
         "[0, 0, 35, 0, 0, 7, 7, 7, 7, 7]" 7 2 2]
  by (simp add: np_real_ok)

theorem C5_no_influence_across_gap_witness:
  "numlib_ok np_real \<and>
   length [0, 1, 2, 3, 4, 10, 11, 12, 13, 14 :: real] =
     length [0, 0, 35, 0, 0 :: real] + length [7, 7, 7, 7, 7 :: real] \<and>
   gap_positions [0, 1, 2, 3, 4, 10, 11, 12, 13, 14] 2 =
     [length [0, 0, 35, 0, 0 :: real]] \<and>
   length [5, 4, 3, 2, 1 :: real] = length [0, 0, 35, 0, 0 :: real] \<and>
   length [1, 2, 3, 4, 5 :: real] = length [7, 7, 7, 7, 7 :: real] \<and>
   (\<exists>out out_r out_l.
      apply_gap_aware_smoothing np_real ([0, 0, 35, 0, 0] @ [7, 7, 7, 7, 7])
        [0, 1, 2, 3, 4, 10, 11, 12, 13, 14] 2 7 2 = Inr out \<and>
      apply_gap_aware_smoothing np_real ([0, 0, 35, 0, 0] @ [1, 2, 3, 4, 5])
        [0, 1, 2, 3, 4, 10, 11, 12, 13, 14] 2 7 2 = Inr out_r \<and>
      apply_gap_aware_smoothing np_real ([5, 4, 3, 2, 1] @ [7, 7, 7, 7, 7])
        [0, 1, 2, 3, 4, 10, 11, 12, 13, 14] 2 7 2 = Inr out_l \<and>
      take (length [0, 0, 35, 0, 0 :: real]) out_r = take (length [0, 0, 35, 0, 0 :: real]) out \<and>
      drop (length [0, 0, 35, 0, 0 :: real]) out_l = drop (length [0, 0, 35, 0, 0 :: real]) out)"
proof -
  have g: "gap_positions [0, 1, 2, 3, 4, 10, 11, 12, 13, 14] 2 =
     [length [0, 0, 35, 0, 0 :: real]]"
    by (simp add: gaps_example eval_nat_numeral)
  have l: "length [0, 1, 2, 3, 4, 10, 11, 12, 13, 14 :: real] =
     length [0, 0, 35, 0, 0 :: real] + length [7, 7, 7, 7, 7 :: real]"
    by simp
  show ?thesis
    using C5_no_influence_across_gap [OF np_real_ok l g, of "[5, 4, 3, 2, 1]" "[1, 2, 3, 4, 5]" 7 2]
      np_real_ok g l
    by (intro conjI) simp_all
qed

section \<open>Properties of the match clock\<close>

text \<open>
  Claim C8. The claim holds of the scalar branch and fails on the vectorised one: for
  frame 0 of period 1, with the period starting at frame 10 and 10 frames per second,
  the scalar call floors the elapsed time at zero and shows \<open>00:00\<close>, the vectorised
  call returns \<open>- 1\<close> second.
\<close>

theorem C8_vectorised_clock_not_floored:
  "calculate_match_clock (Scalar 0 1) [1 \<mapsto> 10] 10 = Inr (Clock ''00:00'') \<and>
   calculate_match_clock (Columns [0] [1]) [1 \<mapsto> 10] 10 = Inr (Seconds [- 1])"
  by (simp add: calculate_match_clock_def dict_get_def mask_assign_def format_02d_def)

text \<open>
  Claim C9. The claim holds of the vectorised branch and fails on the scalar one: for
  frame 600 of period 3, with no start frames known and 10 frames per second, the
  vectorised call returns 60 seconds (base 0), the scalar call takes the base of 45
  minutes and shows \<open>46:00\<close>.
\<close>

theorem C9_scalar_unknown_period_gets_base_45:
  "calculate_match_clock (Columns [600] [3]) Map.empty 10 = Inr (Seconds [60]) \<and>
   calculate_match_clock (Scalar 600 3) Map.empty 10 = Inr (Clock ''46:00'')"
  by (simp add: calculate_match_clock_def dict_get_def mask_assign_def format_02d_def)

section \<open>Properties of the coordinate normalizer\<close>

lemma non_nan_set: "set (non_nan x) = {v. Some v \<in> set x}"
  by (induction x rule: non_nan.induct) auto

lemma Max_abs_le_iff:
  "xs \<noteq> [] \<Longrightarrow> Max (set (map abs xs)) \<le> c \<longleftrightarrow> (\<forall>v\<in>set xs. \<bar>v\<bar> \<le> (c::real))"
  by (simp add: Max_le_iff)

lemma guarded_matches_code:
  assumes "non_nan x \<noteq> []" and "non_nan y \<noteq> []"
  shows "system_tag (guarded_infer_system x y) =
     (let min_x = Min (set (non_nan x)); max_x = Max (set (non_nan x));
          min_y = Min (set (non_nan y)); max_y = Max (set (non_nan y)) in
      if max_x \<le> 15 / 10 \<and> max_y \<le> 15 / 10 \<and> min_x \<ge> 0 \<and> min_y \<ge> 0 then ''0_1''
      else if max_x \<le> 110 \<and> max_y \<le> 110 \<and> (max_x > 15 / 10 \<or> max_y > 15 / 10)
              \<and> min_x \<ge> - 1 \<and> min_y \<ge> - 1 then ''0_100''
      else ''skillcorner_meters'')"
proof -
  let ?X = "set (non_nan x)" and ?Y = "set (non_nan y)"
  have fin: "finite ?X" "finite ?Y" "?X \<noteq> {}" "?Y \<noteq> {}" using assms by auto
  have u: "(Max (set (map abs (non_nan x))) \<le> 15 / 10 \<and> Max (set (map abs (non_nan y))) \<le> 15 / 10
            \<and> Min ?X \<ge> 0 \<and> Min ?Y \<ge> 0) \<longleftrightarrow>
           (Max ?X \<le> 15 / 10 \<and> Max ?Y \<le> 15 / 10 \<and> Min ?X \<ge> 0 \<and> Min ?Y \<ge> 0)"
    using fin assms by (auto simp: Max_abs_le_iff Max_le_iff Min_ge_iff abs_le_iff)
  have p: "(Max (set (map abs (non_nan x))) \<le> 110 \<and> Max (set (map abs (non_nan y))) \<le> 110
            \<and> Min ?X \<ge> - 1 \<and> Min ?Y \<ge> - 1) \<longleftrightarrow>
           (Max ?X \<le> 110 \<and> Max ?Y \<le> 110 \<and> Min ?X \<ge> - 1 \<and> Min ?Y \<ge> - 1)"
    using fin assms by (auto simp: Max_abs_le_iff Max_le_iff Min_ge_iff abs_le_iff)
  show ?thesis
    unfolding guarded_infer_system_def Let_def using u p
    by (auto simp: system_tag_def)
qed


lemma validate_nonempty:
  "x \<noteq> [] \<Longrightarrow> y \<noteq> [] \<Longrightarrow> \<exists>w. validate_coordinate_bounds x y t = Inr w"
  by (simp add: validate_coordinate_bounds_def Let_def)

lemma to_pitch_meters_spec:
  "to_pitch_meters x y (system_tag s) = spec_rescale s x y"
  by (cases s)
     (simp_all add: to_pitch_meters_def system_tag_def spec_rescale_def PITCH_LENGTH_def
       PITCH_WIDTH_def HALF_PITCH_LENGTH_def HALF_PITCH_WIDTH_def)

lemma length_to_pitch_meters:
  "length (fst (to_pitch_meters x y s)) = length x \<and> length (snd (to_pitch_meters x y s)) = length y"
  by (simp add: to_pitch_meters_def)

text \<open>
  Claim C2, amended. For arrays \<open>x\<close>, \<open>y\<close> that each hold a value that is not NaN, the
  normalizer infers, over those values: unit-square when \<open>max |x| \<le> 1.5\<close>,
  \<open>max |y| \<le> 1.5\<close>, \<open>min x \<ge> 0\<close> and \<open>min y \<ge> 0\<close>; otherwise percentage when
  \<open>max |x| \<le> 110\<close>, \<open>max |y| \<le> 110\<close>, \<open>min x \<ge> - 1\<close>, \<open>min y \<ge> - 1\<close> and moreover
  \<open>max x > 1.5\<close> or \<open>max y > 1.5\<close>; otherwise pitch-meters, passed through unchanged. It
  rescales unit-square by \<open>x * 105 - 52.5\<close>, \<open>y * 68 - 34\<close> and percentage by
  \<open>x / 100 * 105 - 52.5\<close>, \<open>y / 100 * 68 - 34\<close>.
\<close>

theorem C2_inference_precedence_with_guard:
  assumes "non_nan x \<noteq> []" and "non_nan y \<noteq> []"
  shows "\<exists>r. infer_and_scale_coordinates x y = Inr r \<and>
           scale_system r = system_tag (guarded_infer_system x y) \<and>
           (x_scaled r, y_scaled r) = spec_rescale (guarded_infer_system x y) x y"
proof -
  let ?s = "guarded_infer_system x y"
  have ne: "x \<noteq> []" "y \<noteq> []" using assms by auto
  obtain xs ys where sc: "to_pitch_meters x y (system_tag ?s) = (xs, ys)"
    by (cases "to_pitch_meters x y (system_tag ?s)") auto
  have "length xs = length x" "length ys = length y"
    using length_to_pitch_meters [of x y "system_tag ?s"] sc by auto
  then have "xs \<noteq> []" "ys \<noteq> []" using ne by auto
  then obtain w where w: "validate_coordinate_bounds xs ys 5 = Inr w"
    using validate_nonempty by blast
  have "infer_and_scale_coordinates x y =
        Inr \<lparr> x_scaled = xs, y_scaled = ys, scale_system = system_tag ?s, bounds_warning = w \<rparr>"
    using assms guarded_matches_code [OF assms, symmetric] sc w
    by (simp add: infer_and_scale_coordinates_def Let_def)
  then show ?thesis
    using sc to_pitch_meters_spec [of x y ?s] by simp
qed

theorem C2_inference_precedence_with_guard_witness:
  "non_nan [Some 50, None, Some 25] \<noteq> [] \<and> non_nan [Some 100, Some 0, None] \<noteq> [] \<and>
   (\<exists>r. infer_and_scale_coordinates [Some 50, None, Some 25] [Some 100, Some 0, None] = Inr r \<and>
        scale_system r = ''0_100'' \<and>
        (x_scaled r, y_scaled r) = ([Some 0, None, Some (- 105 / 4)], [Some 34, Some (- 34), None]))"
  using C2_inference_precedence_with_guard [of "[Some 50, None, Some 25]" "[Some 100, Some 0, None]"]
  by (simp add: guarded_infer_system_def system_tag_def spec_rescale_def)

text \<open>
  The claim as stated fails at \<open>x = [- 0.5]\<close>, \<open>y = [0.5]\<close>: its first rule fails on
  \<open>min x\<close>, its second rule holds, so it asks for the percentage rescaling; the code
  classifies the pair as pitch-meters and returns it unchanged.
\<close>

theorem C2_small_values_with_negative_counterexample:
  "spec_infer_system [Some (- 1 / 2)] [Some (1 / 2)] = Percentage \<and>
   spec_rescale Percentage [Some (- 1 / 2)] [Some (1 / 2)] =
     ([Some (- 2121 / 40)], [Some (- 1683 / 50)]) \<and>
   infer_and_scale_coordinates [Some (- 1 / 2)] [Some (1 / 2)] =
     Inr \<lparr> x_scaled = [Some (- 1 / 2)], y_scaled = [Some (1 / 2)],
           scale_system = ''skillcorner_meters'', bounds_warning = False \<rparr>"
  by (simp add: infer_and_scale_coordinates_def to_pitch_meters_def
      validate_coordinate_bounds_def nanmax_abs_def spec_rescale_def spec_infer_system_def
      HALF_PITCH_LENGTH_def HALF_PITCH_WIDTH_def PITCH_LENGTH_def PITCH_WIDTH_def Let_def)

section \<open>Properties of the extraction\<close>

lemma gradient_returns:
  "length t = length f \<Longrightarrow> 2 \<le> length f \<Longrightarrow> \<exists>v. gradient f t = Inr v \<and> length v = length f"
  by (simp add: gradient_def Let_def)

lemma gradient_unit_returns:
  "2 \<le> length f \<Longrightarrow> \<exists>v. gradient_unit f = Inr v \<and> length v = length f"
  by (simp add: gradient_unit_def Let_def)

lemma scale_and_smooth_returns:
  assumes "rows \<noteq> []"
  shows "\<exists>df. scale_and_smooth rows smooth = Inr df \<and>
     col_x df = (if quantile (map row_x rows) (99 / 100) < 12 / 10
                 then map (\<lambda>r. row_x r * 105) rows else map row_x rows) \<and>
     col_y df = (if quantile (map row_x rows) (99 / 100) < 12 / 10
                 then map (\<lambda>r. row_y r * 68) rows else map row_y rows) \<and>
     length (col_timestamp df) = length rows \<and> length (col_x_smooth df) = length rows \<and>
     length (col_y_smooth df) = length rows"
proof -
  let ?ts = "map row_timestamp rows"
  have sm: "\<exists>out. apply_gap_aware_smoothing np_real vals ?ts (2 / 10)
                 SMOOTHING_WINDOW_SIZE SMOOTHING_POLY_ORDER = Inr out \<and> length out = length rows"
    if "length vals = length rows" for vals
    using smoothing_returns [OF np_real_ok, of ?ts vals SMOOTHING_WINDOW_SIZE "2 / 10" SMOOTHING_POLY_ORDER] that
    by (simp add: SMOOTHING_WINDOW_SIZE_def)
  define xs where "xs = (if quantile (map row_x rows) (99 / 100) < 12 / 10
                 then map (\<lambda>r. row_x r * 105) rows else map row_x rows)"
  define ys where "ys = (if quantile (map row_x rows) (99 / 100) < 12 / 10
                 then map (\<lambda>r. row_y r * 68) rows else map row_y rows)"
  have lx: "length xs = length rows" and ly: "length ys = length rows"
    by (simp_all add: xs_def ys_def)
  obtain xsm where xsm: "apply_gap_aware_smoothing np_real xs ?ts (2 / 10)
                 SMOOTHING_WINDOW_SIZE SMOOTHING_POLY_ORDER = Inr xsm" "length xsm = length rows"
    using sm [OF lx] by blast
  obtain ysm where ysm: "apply_gap_aware_smoothing np_real ys ?ts (2 / 10)
                 SMOOTHING_WINDOW_SIZE SMOOTHING_POLY_ORDER = Inr ysm" "length ysm = length rows"
    using sm [OF ly] by blast
  have "scale_and_smooth rows smooth =
        and_then
          (if smooth \<and> length rows > 5
           then and_then (apply_gap_aware_smoothing np_real xs ?ts (2 / 10)
                          SMOOTHING_WINDOW_SIZE SMOOTHING_POLY_ORDER) (\<lambda>xsm.
                and_then (apply_gap_aware_smoothing np_real ys ?ts (2 / 10)
                          SMOOTHING_WINDOW_SIZE SMOOTHING_POLY_ORDER) (\<lambda>ysm. Inr (xsm, ysm)))
           else Inr (xs, ys))
          (\<lambda>(xsm, ysm).
             Inr (empty_frame \<lparr> col_frame := map row_frame rows, col_timestamp := ?ts,
                    col_period := map row_period rows, col_x := xs, col_y := ys,
                    col_x_smooth := xsm, col_y_smooth := ysm \<rparr>))"
    using assms by (simp add: scale_and_smooth_def Let_def xs_def ys_def o_def)
  then show ?thesis
    unfolding xs_def [symmetric] ys_def [symmetric]
    using xsm ysm lx ly by auto
qed


lemma derive_kinematics_returns:
  assumes lt: "length (col_timestamp df) = n" and lx: "length (col_x_smooth df) = n"
    and ly: "length (col_y_smooth df) = n" and n2: "2 \<le> n"
  shows "\<exists>df'. derive_kinematics df smooth = Inr df' \<and> col_x df' = col_x df \<and> col_y df' = col_y df"
proof -
  let ?t = "col_timestamp df"
  obtain dt0 where dt0: "gradient_unit ?t = Inr dt0"
    using gradient_unit_returns [of ?t] lt n2 by auto
  obtain vx where vx: "gradient (col_x_smooth df) ?t = Inr vx" "length vx = n"
    using gradient_returns [of ?t "col_x_smooth df"] lt lx n2 by auto
  obtain vy where vy: "gradient (col_y_smooth df) ?t = Inr vy" "length vy = n"
    using gradient_returns [of ?t "col_y_smooth df"] lt ly n2 by auto
  define speed_ms where
    "speed_ms = map (\<lambda>v. clip v 0 (MAX_VELOCITY_KMH / (36 / 10))) (map2 (\<lambda>a b. sqrt (a\<^sup>2 + b\<^sup>2)) vx vy)"
  have ls: "length speed_ms = n" using vx vy by (simp add: speed_ms_def)
  obtain vsm where vsm: "apply_gap_aware_smoothing np_real speed_ms ?t (2 / 10) 5 2 = Inr vsm"
      "length vsm = n"
    using smoothing_returns [OF np_real_ok, of ?t speed_ms 5 "2 / 10" 2] lt ls by auto
  define velocity where "velocity = (if smooth \<and> n > 5 then vsm else speed_ms)"
  have lv: "length velocity = n" using vsm ls by (simp add: velocity_def)
  obtain accel where accel: "gradient velocity ?t = Inr accel" "length accel = n"
    using gradient_returns [of ?t velocity] lt lv n2 by auto
  obtain asm where asm: "apply_gap_aware_smoothing np_real accel ?t (2 / 10) 5 2 = Inr asm"
    using smoothing_returns [OF np_real_ok, of ?t accel 5 "2 / 10" 2] lt accel by auto
  have v: "(if smooth \<and> n > 5 then apply_gap_aware_smoothing np_real speed_ms ?t (2 / 10) 5 2
            else Inr speed_ms) = Inr velocity"
    using vsm by (simp add: velocity_def)
  show ?thesis
    unfolding derive_kinematics_def Let_def lt dt0 vx vy and_then_Inr speed_ms_def [symmetric] v
      accel
    using asm by (auto simp: and_then_def)
qed

lemma keep_rows_all: "keep_rows (replicate (length xs) True) xs = xs"
  unfolding keep_rows_def by (induction xs) auto

lemma detection_filter_positions:
  "length (col_y df) = length (col_x df) \<Longrightarrow>
   col_x (detection_filter df r) = col_x df \<and> col_y (detection_filter df r) = col_y df"
  using keep_rows_all [of "col_x df"] keep_rows_all [of "col_y df"]
  by (simp add: detection_filter_def filter_rows_def Let_def)


lemma drop_duplicates_nonempty: "rs \<noteq> [] \<Longrightarrow> drop_duplicates [] rs \<noteq> []"
  by (cases rs) auto

lemma sort_key_nonempty: "rs \<noteq> [] \<Longrightarrow> sort_key f rs \<noteq> []"
  using length_sort [of f rs] by (cases "sort_key f rs") auto

text \<open>
  Claim C10. For every extracted track (sorted by timestamp, one row per timestamp) whose
  x-values have a 99th percentile below 1.2, the \<open>x\<close> and \<open>y\<close> columns returned by
  \<open>extract_player_data\<close> are the extracted values times 105 and times 68, with no
  offset subtracted: unit-square inputs land in \<open>[0, 105] \<times> [0, 68]\<close>, and the
  coordinate normalizer's unit-square conversion of the same values is lower by the
  half-pitch offsets 52.5 and 34.
\<close>

theorem C10_normalised_track_scaled_without_offset:
  assumes recs: "collect_records frames pid \<noteq> []"
    and rows: "rows = drop_duplicates [] (sort_key row_timestamp (collect_records frames pid))"
    and p99: "quantile (map row_x rows) (99 / 100) < 12 / 10"
  shows "\<exists>df. extract_player_data frames pid include_velocity smooth min_detection_rate = Inr df \<and>
     col_x df = map (\<lambda>r. row_x r * 105) rows \<and>
     col_y df = map (\<lambda>r. row_y r * 68) rows \<and>
     ((\<forall>r\<in>set rows. 0 \<le> row_x r \<and> row_x r \<le> 1 \<and> 0 \<le> row_y r \<and> row_y r \<le> 1) \<longrightarrow>
        (\<forall>v\<in>set (col_x df). 0 \<le> v \<and> v \<le> 105) \<and> (\<forall>v\<in>set (col_y df). 0 \<le> v \<and> v \<le> 68)) \<and>
     to_pitch_meters (map (\<lambda>r. Some (row_x r)) rows) (map (\<lambda>r. Some (row_y r)) rows) ''0_1'' =
       (map (\<lambda>v. Some (v - 105 / 2)) (col_x df), map (\<lambda>v. Some (v - 34)) (col_y df))"
proof -
  have ne: "rows \<noteq> []"
    using recs rows by (simp add: drop_duplicates_nonempty sort_key_nonempty)
  obtain df0 where df0: "scale_and_smooth rows smooth = Inr df0"
    "col_x df0 = map (\<lambda>r. row_x r * 105) rows" "col_y df0 = map (\<lambda>r. row_y r * 68) rows"
    "length (col_timestamp df0) = length rows" "length (col_x_smooth df0) = length rows"
    "length (col_y_smooth df0) = length rows"
    using scale_and_smooth_returns [OF ne, of smooth] p99 by auto
  obtain df1 where df1:
    "(if include_velocity \<and> length rows > 1 then derive_kinematics df0 smooth else Inr df0) = Inr df1"
    "col_x df1 = col_x df0" "col_y df1 = col_y df0"
  proof (cases "include_velocity \<and> length rows > 1")
    case True
    then have "2 \<le> length rows" by simp
    from derive_kinematics_returns [OF df0(4) df0(5) df0(6) this, of smooth] True that
    show ?thesis by auto
  next
    case False
    then show ?thesis using that [of df0] by auto
  qed
  let ?df = "detection_filter df1 min_detection_rate"
  have ex: "extract_player_data frames pid include_velocity smooth min_detection_rate = Inr ?df"
    using recs rows [symmetric] df0(1) df1(1)
    by (simp add: extract_player_data_def Let_def)
  have pos: "col_x ?df = map (\<lambda>r. row_x r * 105) rows" "col_y ?df = map (\<lambda>r. row_y r * 68) rows"
    using detection_filter_positions [of df1 min_detection_rate] df0(2,3) df1(2,3) by simp_all
  have box: "(\<forall>r\<in>set rows. 0 \<le> row_x r \<and> row_x r \<le> 1 \<and> 0 \<le> row_y r \<and> row_y r \<le> 1) \<longrightarrow>
        (\<forall>v\<in>set (col_x ?df). 0 \<le> v \<and> v \<le> 105) \<and> (\<forall>v\<in>set (col_y ?df). 0 \<le> v \<and> v \<le> 68)"
    unfolding pos by auto
  have norm: "to_pitch_meters (map (\<lambda>r. Some (row_x r)) rows) (map (\<lambda>r. Some (row_y r)) rows) ''0_1'' =
       (map (\<lambda>v. Some (v - 105 / 2)) (col_x ?df), map (\<lambda>v. Some (v - 34)) (col_y ?df))"
    unfolding pos
    by (simp add: to_pitch_meters_def PITCH_LENGTH_def PITCH_WIDTH_def HALF_PITCH_LENGTH_def
        HALF_PITCH_WIDTH_def o_def)
  show ?thesis
    using ex pos box norm by blast
qed


theorem C10_normalised_track_scaled_without_offset_witness:
  "collect_records
     [\<lparr> frame_id = 1, frame_timestamp = 1 / 10, frame_period_id = 1,
        players_data = [(''9'', None), (''7'', Some (1, 0))] \<rparr>,
      \<lparr> frame_id = 0, frame_timestamp = 0, frame_period_id = 1,
        players_data = [(''7'', Some (1 / 2, 1 / 2))] \<rparr>,
      \<lparr> frame_id = 2, frame_timestamp = 1 / 5, frame_period_id = 1,
        players_data = [(''7'', None)] \<rparr>] ''7'' \<noteq> [] \<and>
   quantile [1 / 2, 1] (99 / 100) < 12 / 10 \<and>
   (\<exists>df. extract_player_data
     [\<lparr> frame_id = 1, frame_timestamp = 1 / 10, frame_period_id = 1,
        players_data = [(''9'', None), (''7'', Some (1, 0))] \<rparr>,
      \<lparr> frame_id = 0, frame_timestamp = 0, frame_period_id = 1,
        players_data = [(''7'', Some (1 / 2, 1 / 2))] \<rparr>,
      \<lparr> frame_id = 2, frame_timestamp = 1 / 5, frame_period_id = 1,
        players_data = [(''7'', None)] \<rparr>] ''7'' True True (95 / 100) = Inr df \<and>
     col_x df = [105 / 2, 105] \<and> col_y df = [34, 0])"
proof -
  have q: "quantile [1 / 2, 1] (99 / 100) = 199 / 200"
    by (simp add: quantile_def Let_def)
  show ?thesis
    using C10_normalised_track_scaled_without_offset [of
     "[\<lparr> frame_id = 1, frame_timestamp = 1 / 10, frame_period_id = 1,
        players_data = [(''9'', None), (''7'', Some (1, 0))] \<rparr>,
      \<lparr> frame_id = 0, frame_timestamp = 0, frame_period_id = 1,
        players_data = [(''7'', Some (1 / 2, 1 / 2))] \<rparr>,
      \<lparr> frame_id = 2, frame_timestamp = 1 / 5, frame_period_id = 1,
        players_data = [(''7'', None)] \<rparr>]" "''7''"
     "[\<lparr> row_frame = 0, row_timestamp = 0, row_period = 1, row_x = 1 / 2, row_y = 1 / 2 \<rparr>,
       \<lparr> row_frame = 1, row_timestamp = 1 / 10, row_period = 1, row_x = 1, row_y = 0 \<rparr>]"
     True True "95 / 100"]
    by (simp add: collect_records_def q) blast
qed

subsection \<open>The speed clamp on the example track\<close>

lemma upt6: "[0..<6] = [0, 1, 2, 3, 4, 5]"
  by (simp add: upt_rec)

lemma sprint_collect: "collect_records sprint_frames ''7'' = sprint_rows"
  by (simp add: collect_records_def sprint_frames_def sprint_rows_def)

lemma sprint_sorted: "drop_duplicates [] (sort_key row_timestamp sprint_rows) = sprint_rows"
  by (simp add: sprint_rows_def)

lemma sprint_quantile: "quantile [0, 0, 3 / 2, 3, 9 / 2, 6] (99 / 100) = 237 / 40"
  by (simp add: quantile_def Let_def)


lemma sqrt_225: "sqrt 225 = 15"
  by (rule real_sqrt_unique) simp_all

lemma sqrt_225_4: "sqrt (225 / 4) = 15 / 2"
  by (rule real_sqrt_unique) (simp_all add: power2_eq_square)

lemma sprint_scale_and_smooth:
  "scale_and_smooth sprint_rows True =
     Inr (empty_frame \<lparr> col_frame := [0, 1, 2, 3, 4, 5], col_timestamp := sprint_t,
            col_period := [1, 1, 1, 1, 1, 1], col_x := sprint_x, col_y := [0, 0, 0, 0, 0, 0],
            col_x_smooth := sprint_x, col_y_smooth := [0, 0, 0, 0, 0, 0] \<rparr>)"
  by (simp add: scale_and_smooth_def sprint_rows_def sprint_quantile sprint_t_def sprint_x_def
      apply_gap_aware_smoothing_def SMOOTHING_WINDOW_SIZE_def Let_def)

lemma sprint_gradient_unit:
  "gradient_unit sprint_t = Inr [1 / 10, 1 / 10, 1 / 10, 1 / 10, 1 / 10, 1 / 10]"
  by (simp add: gradient_unit_def sprint_t_def upt6 Let_def)

lemma sprint_vx: "gradient sprint_x sprint_t = Inr [0, 15 / 2, 15, 15, 15, 15]"
  by (simp add: gradient_def sprint_t_def sprint_x_def upt6 Let_def)

lemma sprint_vy: "gradient [0, 0, 0, 0, 0, 0] sprint_t = Inr [0, 0, 0, 0, 0, 0]"
  by (simp add: gradient_def sprint_t_def upt6 Let_def)

lemma sprint_speed:
  "map2 (\<lambda>a b. sqrt (a\<^sup>2 + b\<^sup>2)) [0, 15 / 2, 15, 15, 15, 15] [0, 0, 0, 0, 0, 0 :: real] =
     [0, 15 / 2, 15, 15, 15, 15]"
  by simp

lemma sprint_gaps: "where_gt (0 # diff sprint_t) (1 / 5) = []"
  by (simp add: where_gt_def sprint_t_def upt6)

lemma savgol_5_2_six:
  "savgol_filter [a, b, c, d, e, f] 5 2 =
     Some [polyfit_values 2 [a, b, c, d, e] ! 0, polyfit_values 2 [a, b, c, d, e] ! 1,
           polyfit_values 2 [a, b, c, d, e] ! 2, polyfit_values 2 [b, c, d, e, f] ! 2,
           polyfit_values 2 [b, c, d, e, f] ! 3, polyfit_values 2 [b, c, d, e, f] ! 4]"
  by (simp add: savgol_filter_def upt6 slice_def Let_def polyfit_values_5_2)

lemma sprint_velocity:
  "apply_gap_aware_smoothing np_real [0, 15 / 2, 35 / 3, 35 / 3, 35 / 3, 35 / 3] sprint_t (1 / 5) 5 2 =
     Inr [11 / 42, 299 / 42, 236 / 21, 505 / 42, 515 / 42, 475 / 42]"
  using sprint_gaps
  by (simp add: apply_gap_aware_smoothing_def diff_prepend_first_def sprint_t_def
      safe_savgol_def np_real_def savgol_5_2_six polyfit_values_5_2 Let_def)

lemma sprint_accel:
  "gradient [11 / 42, 299 / 42, 236 / 21, 505 / 42, 515 / 42, 475 / 42] sprint_t =
     Inr [480 / 7, 2305 / 42, 515 / 21, 215 / 42, - 25 / 7, - 200 / 21]"
  by (simp add: gradient_def sprint_t_def upt6 Let_def)

lemma sprint_accel_smooth:
  "apply_gap_aware_smoothing np_real [480 / 7, 2305 / 42, 515 / 21, 215 / 42, - (25 / 7), - (200 / 21)]
     sprint_t (1 / 5) 5 2 =
     Inr [10541 / 147, 14057 / 294, 3956 / 147, 850 / 147, - 1663 / 294, - 421 / 49]"
  using sprint_gaps
  by (simp add: apply_gap_aware_smoothing_def diff_prepend_first_def sprint_t_def
      safe_savgol_def np_real_def savgol_5_2_six polyfit_values_5_2 Let_def)


lemma sprint_kinematics:
  "\<exists>df. derive_kinematics
     (empty_frame \<lparr> col_frame := [0, 1, 2, 3, 4, 5], col_timestamp := sprint_t,
        col_period := [1, 1, 1, 1, 1, 1], col_x := sprint_x, col_y := [0, 0, 0, 0, 0, 0],
        col_x_smooth := sprint_x, col_y_smooth := [0, 0, 0, 0, 0, 0] \<rparr>) True = Inr df \<and>
     length (col_x df) = 6 \<and>
     col_velocity_raw df = Some [0, 15 / 2, 35 / 3, 35 / 3, 35 / 3, 35 / 3] \<and>
     col_velocity_kmh df = Some [33 / 35, 897 / 35, 1416 / 35, 303 / 7, 309 / 7, 285 / 7] \<and>
     logged_anomaly_count df = Some 4"
proof -
  have len: "length sprint_t = 6" "length sprint_x = 6"
    by (simp_all add: sprint_t_def sprint_x_def)
  show ?thesis
    unfolding derive_kinematics_def
    by (simp add: len sprint_gradient_unit sprint_vx sprint_vy sqrt_225 sqrt_225_4
        MAX_VELOCITY_KMH_def VELOCITY_ANOMALY_THRESHOLD_def clip_def sprint_velocity
        sprint_accel sprint_accel_smooth Let_def)
qed


text \<open>
  Claim C1. The clamp is applied to the raw speed, and the reported speed is smoothed
  afterwards; the smoothing filter overshoots. For a player who stands for two frames
  and is then tracked at 15 m/s (54 km/h) for four frames, 0.1 s apart, the raw series
  is clamped to 42 km/h (\<open>35 / 3\<close> m/s) and four anomalies are counted, but the reported
  \<open>velocity_kmh\<close> reaches \<open>309 / 7\<close>, about 44.1 km/h.
\<close>

theorem C1_smoothed_speed_exceeds_clamp:
  "map_sum id col_velocity_raw (extract_player_data sprint_frames ''7'' True True (95 / 100)) =
     Inr (Some [0, 15 / 2, 35 / 3, 35 / 3, 35 / 3, 35 / 3]) \<and>
   map_sum id logged_anomaly_count (extract_player_data sprint_frames ''7'' True True (95 / 100)) =
     Inr (Some 4) \<and>
   map_sum id col_velocity_kmh (extract_player_data sprint_frames ''7'' True True (95 / 100)) =
     Inr (Some [33 / 35, 897 / 35, 1416 / 35, 303 / 7, 309 / 7, 285 / 7]) \<and>
   (42 :: real) < 309 / 7"
proof -
  obtain df where df: "derive_kinematics
     (empty_frame \<lparr> col_frame := [0, 1, 2, 3, 4, 5], col_timestamp := sprint_t,
        col_period := [1, 1, 1, 1, 1, 1], col_x := sprint_x, col_y := [0, 0, 0, 0, 0, 0],
        col_x_smooth := sprint_x, col_y_smooth := [0, 0, 0, 0, 0, 0] \<rparr>) True = Inr df"
     "length (col_x df) = 6"
     "col_velocity_raw df = Some [0, 15 / 2, 35 / 3, 35 / 3, 35 / 3, 35 / 3]"
     "col_velocity_kmh df = Some [33 / 35, 897 / 35, 1416 / 35, 303 / 7, 309 / 7, 285 / 7]"
     "logged_anomaly_count df = Some 4"
    using sprint_kinematics by blast
  have rows: "sprint_rows \<noteq> []" "length sprint_rows = 6" by (simp_all add: sprint_rows_def)
  have ne: "col_x df \<noteq> []" using df(2) by auto
  have "extract_player_data sprint_frames ''7'' True True (95 / 100) =
        Inr (df \<lparr> col_is_detected := Some (replicate 6 True) \<rparr>)"
    using rows df(1,2) ne
    by (simp add: extract_player_data_def sprint_collect sprint_sorted sprint_scale_and_smooth
        detection_filter_def Let_def)
  then show ?thesis using df(3,4,5) by simp
qed

end
